theory Spec2Isabelle
  imports
    Complex_Main
    "HOL-Library.Char_ord"
    "HOL-Library.List_Lexorder"
    "HOL-Library.Multiset"
begin

section \<open>plot\_2d-eem.py: batch contour plots of excitation-emission matrices\<close>

text \<open>
  The script has four functions: \<open>get_fileNames\<close>, \<open>get_XYZ\<close>, \<open>plot_contour\<close> and
  \<open>main\<close>. Each is embedded below as a HOL function of the same name. What the script
  reads and writes (the directory listing, the files, the console) is explicit state;
  every exception is a value \<open>Inl e\<close> of a sum type.

  The script calls pandas, numpy and matplotlib. Those calls are embedded by separate
  definitions named after the library function, each with a comment telling which part of
  the library's behaviour it covers. 64-bit floating point numbers are taken as exact
  reals, which agrees with the floating point results for the integer-valued quantities
  used here as long as their magnitude is below \<open>2^53\<close>; the properties that need
  it carry that bound. NaN and infinite cells are not part of the model.
\<close>

subsection \<open>Data\<close>

text \<open>
  A cell of a parsed table: \<open>pd.read_csv\<close> yields a number where the field is numeric
  and keeps the text where it is not (the column then has dtype \<open>object\<close>); it does
  not raise on a non-numeric field. Empty fields and the tokens pandas reads as missing
  (such as \<open>NA\<close> or \<open>n/a\<close>) become NaN and are outside the model: \<open>Txt\<close> stands
  for text that is neither a number nor such a token.
\<close>

datatype cell = Num real | Txt string

text \<open>
  A pandas \<open>DataFrame\<close>: column labels, row labels and the rows of cells. The type of
  the labels is a parameter: \<open>read_csv(header=0, index_col=0)\<close> gives column labels
  that are the header fields as text, and row labels parsed like cells.
\<close>

record ('c, 'i) frame =
  columns :: "'c list"
  index :: "'i list"
  vals :: "cell list list"

text \<open>Every \<open>DataFrame\<close> is rectangular: one row per row label, one cell per column label.\<close>

definition wf_frame :: "('c, 'i) frame \<Rightarrow> bool" where
  "wf_frame Z \<longleftrightarrow>
     length (vals Z) = length (index Z) \<and>
     list_all (\<lambda>row. length row = length (columns Z)) (vals Z)"

text \<open>\<open>DataFrame.shape\<close> is \<open>(len(index), len(columns))\<close>.\<close>

definition frame_shape :: "('c, 'i) frame \<Rightarrow> nat \<times> nat" where
  "frame_shape Z = (length (index Z), length (columns Z))"

text \<open>A two-dimensional numpy array: its \<open>shape\<close> and its rows.\<close>

record 'a ndarray =
  shape :: "nat \<times> nat"
  rows :: "'a list list"

definition wf_ndarray :: "'a ndarray \<Rightarrow> bool" where
  "wf_ndarray A \<longleftrightarrow>
     length (rows A) = fst (shape A) \<and>
     list_all (\<lambda>row. length row = snd (shape A)) (rows A)"

text \<open>
  What a path of the file system holds: a file that \<open>read_csv\<close> parses into a table, a
  file it cannot parse, or an image written by \<open>savefig\<close> (its format and the ticks of
  its colorbar).
\<close>

datatype content =
    Table "(string, cell) frame"
  | Unparsable
  | Image string "real list"

text \<open>
  The file system: what \<open>os.listdir\<close> yields for each directory (in the order the
  operating system gives, which is arbitrary), the content at each path, and the paths
  at which no file can be written (the directory is missing or not writable).
\<close>

record filesystem =
  dirs :: "string \<rightharpoonup> string list"
  files :: "string \<rightharpoonup> content"
  locked :: "string set"

text \<open>The exceptions of the script, named by the call that raises.\<close>

datatype error =
    ListdirError
  | ReadCsvError
  | AstypeIntError
  | ContourfError
  | MaxError
  | ArangeError
  | SavefigError

subsection \<open>Python and library functions\<close>

text \<open>\<open>str.endswith\<close>.\<close>

definition endswith :: "string \<Rightarrow> string \<Rightarrow> bool" where
  "endswith s suffix \<longleftrightarrow>
     length suffix \<le> length s \<and> drop (length s - length suffix) s = suffix"

text \<open>
  \<open>os.path.join\<close> of two components on POSIX: an absolute second component replaces
  the first; a separator is inserted unless the first is empty or ends with one.
\<close>

definition os_path_join :: "string \<Rightarrow> string \<Rightarrow> string" where
  "os_path_join a b =
     (if b \<noteq> [] \<and> hd b = CHR ''/'' then b
      else if a = [] \<or> last a = CHR ''/'' then a @ b
      else a @ ''/'' @ b)"

text \<open>\<open>str(n)\<close> for a non-negative integer, as an f-string formats it.\<close>

fun str_nat :: "nat \<Rightarrow> string" where
  "str_nat n =
     (if n < 10 then [''0123456789'' ! n]
      else str_nat (n div 10) @ [''0123456789'' ! (n mod 10)])"

declare str_nat.simps [simp del]

text \<open>
  \<open>int(s)\<close> for a string of ASCII characters, which is what
  \<open>Index.astype(int)\<close> applies to each label of an \<open>object\<close> index: surrounding
  whitespace is dropped, a sign is optional, the rest is decimal digits in which single
  underscores may separate digits. Anything else raises \<open>ValueError\<close> (\<open>None\<close>).
\<close>

definition is_space :: "char \<Rightarrow> bool" where
  "is_space c \<longleftrightarrow>
     c \<in> set [CHR '' '', CHR 0x09, CHR 0x0A, CHR 0x0B, CHR 0x0C, CHR 0x0D,
                CHR 0x1C, CHR 0x1D, CHR 0x1E, CHR 0x1F]"

definition digit_val :: "char \<Rightarrow> nat option" where
  "digit_val c =
     (if CHR ''0'' \<le> c \<and> c \<le> CHR ''9'' then Some (of_char c - 48) else None)"

fun parse_digits :: "nat \<Rightarrow> string \<Rightarrow> nat option" where
  "parse_digits acc [] = Some acc"
| "parse_digits acc [c] =
     (case digit_val c of Some d \<Rightarrow> Some (10 * acc + d) | None \<Rightarrow> None)"
| "parse_digits acc (c # c' # cs) =
     (case digit_val c of
        Some d \<Rightarrow> parse_digits (10 * acc + d) (c' # cs)
      | None \<Rightarrow>
          (if c = CHR ''_'' then
             (case digit_val c' of
                Some d' \<Rightarrow> parse_digits (10 * acc + d') cs
              | None \<Rightarrow> None)
           else None))"

definition parse_unsigned :: "string \<Rightarrow> nat option" where
  "parse_unsigned s =
     (case s of
        [] \<Rightarrow> None
      | c # cs \<Rightarrow> (case digit_val c of Some d \<Rightarrow> parse_digits d cs | None \<Rightarrow> None))"

definition strip :: "string \<Rightarrow> string" where
  "strip s = rev (dropWhile is_space (rev (dropWhile is_space s)))"

definition py_int :: "string \<Rightarrow> int option" where
  "py_int s =
     (case strip s of
        [] \<Rightarrow> None
      | c # cs \<Rightarrow>
          (if c = CHR ''-'' then map_option (\<lambda>n. - int n) (parse_unsigned cs)
           else if c = CHR ''+'' then map_option int (parse_unsigned cs)
           else map_option int (parse_unsigned (c # cs))))"

text \<open>
  The target of \<open>astype(int)\<close> is a 64-bit integer: a label whose value does not fit
  raises \<open>OverflowError\<close>.
\<close>

definition int64_of :: "string \<Rightarrow> int option" where
  "int64_of l =
     (case py_int l of
        None \<Rightarrow> None
      | Some n \<Rightarrow> (if - (2 ^ 63) \<le> n \<and> n < 2 ^ 63 then Some n else None))"

text \<open>\<open>Index.astype(int)\<close> on the text labels: every label is converted, or it raises.\<close>

fun astype_int :: "string list \<Rightarrow> error + int list" where
  "astype_int [] = Inr []"
| "astype_int (l # ls) =
     (case int64_of l of
        None \<Rightarrow> Inl AstypeIntError
      | Some n \<Rightarrow> (case astype_int ls of Inl e \<Rightarrow> Inl e | Inr ns \<Rightarrow> Inr (n # ns)))"

text \<open>
  \<open>pd.read_csv(path, header=0, index_col=0)\<close>: the table parsed from the file, or an
  exception when there is no such file or it does not parse.
\<close>

definition read_csv :: "filesystem \<Rightarrow> string \<Rightarrow> error + (string, cell) frame" where
  "read_csv fs path =
     (case files fs path of
        Some (Table t) \<Rightarrow> Inr t
      | _ \<Rightarrow> Inl ReadCsvError)"

text \<open>\<open>DataFrame.T\<close>: labels swap, cell \<open>(i, j)\<close> of the result is cell \<open>(j, i)\<close>.\<close>

definition frame_T :: "('c, 'i) frame \<Rightarrow> ('i, 'c) frame" where
  "frame_T Z =
     \<lparr> columns = index Z,
       index = columns Z,
       vals = map (\<lambda>j. map (\<lambda>row. row ! j) (vals Z)) [0..<length (columns Z)] \<rparr>"

text \<open>
  \<open>np.meshgrid(x, y)\<close> with the default \<open>indexing='xy'\<close>: both results have shape
  \<open>(len(y), len(x))\<close>; \<open>X[i][j] = x[j]\<close> and \<open>Y[i][j] = y[i]\<close>.
\<close>

definition meshgrid :: "'a list \<Rightarrow> 'b list \<Rightarrow> 'a ndarray \<times> 'b ndarray" where
  "meshgrid x y =
     (\<lparr> shape = (length y, length x), rows = replicate (length y) x \<rparr>,
      \<lparr> shape = (length y, length x), rows = map (\<lambda>v. replicate (length x) v) y \<rparr>)"

text \<open>
  \<open>ax.contourf(X, Y, Z, 100, cmap='jet')\<close>: matplotlib raises when the shapes of
  \<open>X\<close> and \<open>Y\<close> differ from that of \<open>Z\<close>, when \<open>Z\<close> is smaller than 2 by 2, and when
  an entry of \<open>X\<close> or a cell of \<open>Z\<close> is not a number (\<open>Y\<close> holds integers). Otherwise
  the plot is drawn; the result here is the numbers of \<open>Z\<close>.
\<close>

fun cell_num :: "cell \<Rightarrow> real option" where
  "cell_num (Num r) = Some r"
| "cell_num (Txt s) = None"

definition is_num :: "cell \<Rightarrow> bool" where
  "is_num c \<longleftrightarrow> cell_num c \<noteq> None"

definition contourf ::
  "cell ndarray \<Rightarrow> int ndarray \<Rightarrow> ('c, 'i) frame \<Rightarrow> error + real list list" where
  "contourf X Y Z =
     (if shape X \<noteq> frame_shape Z \<or> shape Y \<noteq> frame_shape Z then Inl ContourfError
      else if fst (frame_shape Z) < 2 \<or> snd (frame_shape Z) < 2 then Inl ContourfError
      else if \<not> list_all (list_all is_num) (rows X) then Inl ContourfError
      else if \<not> list_all (list_all is_num) (vals Z) then Inl ContourfError
      else Inr (map (map (\<lambda>c. the (cell_num c))) (vals Z)))"

text \<open>
  \<open>Z.max()\<close> is the maximum of each column of the frame; Python's \<open>max\<close> of that
  series keeps the first item and replaces it by each later item that is greater.
  \<open>max\<close> of an empty sequence raises. (A frame without rows is refused by
  \<open>contourf\<close> before, so the maximum of an empty column is never taken.)
\<close>

definition column :: "nat \<Rightarrow> 'a list list \<Rightarrow> 'a list" where
  "column j rs = map (\<lambda>row. row ! j) rs"

definition py_max :: "real list \<Rightarrow> error + real" where
  "py_max xs =
     (case xs of
        [] \<Rightarrow> Inl MaxError
      | x # rest \<Rightarrow> Inr (fold (\<lambda>item cur. if item > cur then item else cur) rest x))"

definition DataFrame_max :: "nat \<Rightarrow> real list list \<Rightarrow> (error + real) list" where
  "DataFrame_max ncols rs = map (\<lambda>j. py_max (column j rs)) [0..<ncols]"

fun collect :: "(error + 'a) list \<Rightarrow> error + 'a list" where
  "collect [] = Inr []"
| "collect (Inl e # rs) = Inl e"
| "collect (Inr v # rs) = (case collect rs of Inl e \<Rightarrow> Inl e | Inr vs \<Rightarrow> Inr (v # vs))"

definition max_of_max :: "nat \<Rightarrow> real list list \<Rightarrow> error + real" where
  "max_of_max ncols rs =
     (case collect (DataFrame_max ncols rs) of Inl e \<Rightarrow> Inl e | Inr ms \<Rightarrow> py_max ms)"

text \<open>
  \<open>round(v, -2)\<close> on a numpy float: \<open>v / 100\<close> is rounded to the nearest integer,
  a tie going to the even one, and multiplied by 100.
\<close>

definition rint :: "real \<Rightarrow> int" where
  "rint q =
     (let f = \<lfloor>q\<rfloor>; d = q - of_int f
      in if d < 1 / 2 then f
         else if d > 1 / 2 then f + 1
         else if even f then f else f + 1)"

definition round_neg2 :: "real \<Rightarrow> real" where
  "round_neg2 v = of_int (rint (v / 100)) * 100"

text \<open>
  \<open>np.arange(start, stop, step)\<close>: \<open>ceil((stop - start) / step)\<close> values
  \<open>start + i * step\<close> (none when that count is negative); a zero step raises.
  The count is taken over the reals; floating point gives the same count for the
  arguments \<open>plot_contour\<close> passes as long as \<open>maxZ\<close> is below \<open>2^53\<close> in magnitude
  (beyond that \<open>maxZ + 1\<close> is rounded to \<open>maxZ\<close> and a positive \<open>maxZ\<close> loses its
  last tick).
\<close>

definition arange :: "real \<Rightarrow> real \<Rightarrow> real \<Rightarrow> error + real list" where
  "arange start stop step =
     (if step = 0 then Inl ArangeError
      else Inr (map (\<lambda>i. start + of_nat i * step) [0..<nat \<lceil>(stop - start) / step\<rceil>]))"

text \<open>
  \<open>os.path.splitext(fname)[1][1:]\<close>: the text after the last dot of the last path
  component, where leading dots of that component do not count; empty when there is no
  such dot.
\<close>

definition basename :: "string \<Rightarrow> string" where
  "basename p = rev (takeWhile (\<lambda>c. c \<noteq> CHR ''/'') (rev p))"

definition splitext_format :: "string \<Rightarrow> string" where
  "splitext_format p =
     (let b = dropWhile (\<lambda>c. c = CHR ''.'') (basename p)
      in if CHR ''.'' \<in> set b then rev (takeWhile (\<lambda>c. c \<noteq> CHR ''.'') (rev b)) else [])"

text \<open>\<open>str.lower\<close> and \<open>str.rstrip('.')\<close> on ASCII text.\<close>

definition lower_char :: "char \<Rightarrow> char" where
  "lower_char c =
     (case map_of (zip ''ABCDEFGHIJKLMNOPQRSTUVWXYZ'' ''abcdefghijklmnopqrstuvwxyz'') c of
        Some l \<Rightarrow> l
      | None \<Rightarrow> c)"

definition lower :: "string \<Rightarrow> string" where
  "lower s = map lower_char s"

definition rstrip_dots :: "string \<Rightarrow> string" where
  "rstrip_dots s = rev (dropWhile (\<lambda>c. c = CHR ''.'') (rev s))"

text \<open>
  \<open>fig.savefig(fname, ...)\<close> without a \<open>format\<close> argument. The format is the
  extension of \<open>fname\<close> in lower case; when \<open>fname\<close> has no extension the default
  format \<open>png\<close> is taken and \<open>'.png'\<close> is appended to \<open>fname\<close> stripped of
  trailing dots. It raises when the format is not one the backend supports (the set is
  a parameter) and when the file cannot be written; otherwise the image is written at
  that name, replacing what was there.
\<close>

definition savefig_target :: "string \<Rightarrow> string \<times> string" where
  "savefig_target fname =
     (let fmt = splitext_format fname
      in if fmt = [] then (rstrip_dots fname @ ''.png'', ''png'') else (fname, lower fmt))"

definition savefig ::
  "(string \<Rightarrow> bool) \<Rightarrow> string \<Rightarrow> real list \<Rightarrow> filesystem \<Rightarrow> error + filesystem" where
  "savefig supported fname ticks fs =
     (let (target, fmt) = savefig_target fname
      in if \<not> supported fmt then Inl SavefigError
         else if target \<in> locked fs then Inl SavefigError
         else Inr (fs\<lparr>files := (files fs)(target \<mapsto> Image fmt ticks)\<rparr>))"

subsection \<open>The functions of the script\<close>

text \<open>
  \<open>get_fileNames\<close>: the entries of the directory that end with \<open>.csv\<close>, sorted.
  \<open>os.listdir\<close> raises when the directory does not exist. \<open>sorted\<close> compares
  strings by code point; a string is here its UTF-8 bytes, whose lexicographic order is
  the same.
\<close>

definition get_fileNames :: "filesystem \<Rightarrow> string \<Rightarrow> error + string list" where
  "get_fileNames fs filePath =
     (case dirs fs filePath of
        None \<Rightarrow> Inl ListdirError
      | Some fileList \<Rightarrow> Inr (sort (filter (\<lambda>file. endswith file ''.csv'') fileList)))"

text \<open>
  \<open>get_XYZ\<close>: read the table, transpose it, take \<open>x\<close> from its columns and \<open>y\<close>
  from its index converted to integers, and build the mesh.
\<close>

definition get_XYZ ::
  "filesystem \<Rightarrow> string \<Rightarrow> string \<Rightarrow>
     error + (cell ndarray \<times> int ndarray \<times> (cell, string) frame)" where
  "get_XYZ fs filePath fileName =
     (case read_csv fs (os_path_join filePath fileName) of
        Inl e \<Rightarrow> Inl e
      | Inr raw \<Rightarrow>
          (let Z = frame_T raw;
               x = columns Z
           in case astype_int (index Z) of
                Inl e \<Rightarrow> Inl e
              | Inr y \<Rightarrow> (let (X, Y) = meshgrid x y in Inr (X, Y, Z))))"

text \<open>
  \<open>plot_contour\<close>: draw the contours, compute \<open>maxZ\<close> and the colorbar ticks, and
  save the figure at the name of the input without its last four characters, followed by
  a dot and the format. Nothing is written before \<open>savefig\<close>, the last statement.
\<close>

definition colorbar_ticks :: "real \<Rightarrow> error + real list" where
  "colorbar_ticks maxZ = arange 0 (maxZ + 1) (maxZ / 5)"

definition plot_contour ::
  "(string \<Rightarrow> bool) \<Rightarrow> cell ndarray \<Rightarrow> int ndarray \<Rightarrow> ('c, 'i) frame \<Rightarrow>
     string \<Rightarrow> string \<Rightarrow> string \<Rightarrow> filesystem \<Rightarrow> error + filesystem" where
  "plot_contour supported X Y Z filePath fileName outFormat fs =
     (case contourf X Y Z of
        Inl e \<Rightarrow> Inl e
      | Inr nums \<Rightarrow>
          (case max_of_max (length (columns Z)) nums of
             Inl e \<Rightarrow> Inl e
           | Inr m \<Rightarrow>
               (let maxZ = round_neg2 m
                in case colorbar_ticks maxZ of
                     Inl e \<Rightarrow> Inl e
                   | Inr ticks \<Rightarrow>
                       (let outfile = os_path_join filePath (take (length fileName - 4) fileName)
                        in savefig supported (outfile @ ''.'' @ outFormat) ticks fs))))"

text \<open>
  \<open>main\<close>: the loop over the file names with its bare \<open>except\<close>, then the summary
  line. The state of the loop is the success count, the lines printed so far and the file
  system. \<open>repr\<close> of the list of names in the first line is a parameter.
\<close>

record run =
  count_ok :: nat
  printed :: "string list"
  disk :: filesystem

definition plot_file ::
  "(string \<Rightarrow> bool) \<Rightarrow> string \<Rightarrow> string \<Rightarrow> string \<Rightarrow> filesystem \<Rightarrow> error + filesystem" where
  "plot_file supported filePath outFormat file fs =
     (case get_XYZ fs filePath file of
        Inl e \<Rightarrow> Inl e
      | Inr (X, Y, Z) \<Rightarrow> plot_contour supported X Y Z filePath file outFormat fs)"

fun main_loop ::
  "(string \<Rightarrow> bool) \<Rightarrow> string \<Rightarrow> string \<Rightarrow> string list \<Rightarrow> run \<Rightarrow> run" where
  "main_loop supported filePath outFormat [] st = st"
| "main_loop supported filePath outFormat (file # rest) st =
     (case plot_file supported filePath outFormat file (disk st) of
        Inr fs' \<Rightarrow>
          main_loop supported filePath outFormat rest (st\<lparr>count_ok := count_ok st + 1, disk := fs'\<rparr>)
      | Inl e \<Rightarrow>
          main_loop supported filePath outFormat rest
            (st\<lparr>printed := printed st @ [''Failed to plot '' @ file @ ''.'']\<rparr>))"

definition main ::
  "(string list \<Rightarrow> string) \<Rightarrow> (string \<Rightarrow> bool) \<Rightarrow> string \<Rightarrow> string \<Rightarrow> filesystem \<Rightarrow>
     error + (string list \<times> filesystem)" where
  "main repr supported filePath outFormat fs =
     (case get_fileNames fs filePath of
        Inl e \<Rightarrow> Inl e
      | Inr fileNames \<Rightarrow>
          (let first = ''There are '' @ str_nat (length fileNames) @ '' files to parse.''
                         @ [CHR 0x0A] @ ''File list = '' @ repr fileNames;
               st = main_loop supported filePath outFormat fileNames
                      \<lparr>count_ok = 0, printed = [first], disk = fs\<rparr>
           in Inr (printed st @
                     [''Succesfully plotted '' @ str_nat (count_ok st) @ ''/''
                        @ str_nat (length fileNames) @ '' files.''],
                   disk st)))"

subsection \<open>Concrete directories and tables\<close>

text \<open>
  The output formats the documentation of the script names. What \<open>savefig\<close> accepts
  depends on the backend and is a parameter of \<open>plot_contour\<close>; the examples use this
  set.
\<close>

definition doc_formats :: "string \<Rightarrow> bool" where
  "doc_formats fmt \<longleftrightarrow> fmt \<in> set [''png'', ''svg'', ''pdf'']"

text \<open>A directory with three data files, a file with an upper-case extension and a text file.\<close>

definition listing_fs :: filesystem where
  "listing_fs =
     \<lparr> dirs = [''data'' \<mapsto> [''c.csv'', ''x.CSV'', ''a.csv'', ''notes.txt'', ''b.csv'']],
       files = Map.empty,
       locked = {} \<rparr>"

text \<open>
  A table with excitation wavelengths 300, 310, 320 in the header row and emission
  wavelengths 350, 360 in the first column, as \<open>read_csv\<close> parses it, and the three
  values \<open>get_XYZ\<close> computes from it.
\<close>

definition table_2x3 :: "(string, cell) frame" where
  "table_2x3 =
     \<lparr> columns = [''300'', ''310'', ''320''],
       index = [Num 350, Num 360],
       vals = [[Num 10, Num 20, Num 30], [Num 40, Num 50, Num 60]] \<rparr>"

definition sample_fs :: filesystem where
  "sample_fs =
     \<lparr> dirs = [''data'' \<mapsto> [''sample.csv'']],
       files = [''data/sample.csv'' \<mapsto> Table table_2x3],
       locked = {} \<rparr>"

definition sample_X :: "cell ndarray" where
  "sample_X =
     \<lparr> shape = (3, 2),
       rows = [[Num 350, Num 360], [Num 350, Num 360], [Num 350, Num 360]] \<rparr>"

definition sample_Y :: "int ndarray" where
  "sample_Y = \<lparr> shape = (3, 2), rows = [[300, 300], [310, 310], [320, 320]] \<rparr>"

definition sample_Z :: "(cell, string) frame" where
  "sample_Z =
     \<lparr> columns = [Num 350, Num 360],
       index = [''300'', ''310'', ''320''],
       vals = [[Num 10, Num 40], [Num 20, Num 50], [Num 30, Num 60]] \<rparr>"


text \<open>
  A table of two emissions by two excitations with the given intensities, and the mesh
  \<open>get_XYZ\<close> builds for it.
\<close>

definition table_2x2 :: "real \<Rightarrow> real \<Rightarrow> real \<Rightarrow> real \<Rightarrow> (string, cell) frame" where
  "table_2x2 a b c d =
     \<lparr> columns = [''300'', ''310''],
       index = [Num 350, Num 360],
       vals = [[Num a, Num b], [Num c, Num d]] \<rparr>"

definition grid_X :: "cell ndarray" where
  "grid_X = \<lparr> shape = (2, 2), rows = [[Num 350, Num 360], [Num 350, Num 360]] \<rparr>"

definition grid_Y :: "int ndarray" where
  "grid_Y = \<lparr> shape = (2, 2), rows = [[300, 300], [310, 310]] \<rparr>"

text \<open>A directory in which the output path of \<open>peak.csv\<close> is already taken.\<close>

definition plain_fs :: filesystem where
  "plain_fs =
     \<lparr> dirs = [''data'' \<mapsto> [''peak.csv'']],
       files = [''data/peak.csv'' \<mapsto> Unparsable, ''data/peak.png'' \<mapsto> Unparsable],
       locked = {} \<rparr>"


text \<open>
  \<open>repr\<close> of a list of names that need no escaping: each name in single quotes,
  separated by a comma and a space, in brackets.
\<close>

fun join_comma :: "string list \<Rightarrow> string" where
  "join_comma [] = []"
| "join_comma [x] = x"
| "join_comma (x # y # r) = x @ '', '' @ join_comma (y # r)"

definition repr_plain :: "string list \<Rightarrow> string" where
  "repr_plain names = ''['' @ join_comma (map (\<lambda>n. [CHR 0x27] @ n @ [CHR 0x27]) names) @ '']''"

text \<open>
  A directory with three data files, listed out of order; \<open>s2.csv\<close> has a cell that is
  not a number.
\<close>

definition batch_fs :: filesystem where
  "batch_fs =
     \<lparr> dirs = [''data'' \<mapsto> [''s3.csv'', ''s1.csv'', ''s2.csv'']],
       files = [''data/s1.csv'' \<mapsto> Table (table_2x2 120 80 437 15),
                ''data/s2.csv'' \<mapsto>
                  Table \<lparr> columns = [''300'', ''310''],
                          index = [Num 350, Num 360],
                          vals = [[Num 1, Txt ''abc''], [Num 3, Num 4]] \<rparr>,
                ''data/s3.csv'' \<mapsto> Table (table_2x2 250 90 610 40)],
       locked = {} \<rparr>"

section \<open>Properties\<close>

subsection \<open>File discovery\<close>

lemma endswith_iff: "endswith s suffix \<longleftrightarrow> (\<exists>base. s = base @ suffix)"
proof
  assume "endswith s suffix"
  then have "s = take (length s - length suffix) s @ suffix"
    by (metis append_take_drop_id endswith_def)
  then show "\<exists>base. s = base @ suffix" ..
next
  assume "\<exists>base. s = base @ suffix"
  then show "endswith s suffix"
    by (auto simp: endswith_def)
qed

text \<open>
  Claim C4. For a directory that can be listed, \<open>get_fileNames\<close> returns a sorted list
  that holds exactly the entries of the listing ending with the characters \<open>.csv\<close>
  (equality of characters, so \<open>.CSV\<close> does not count), each as often as the listing has
  it. Any listing with the same entries in another order gives the same result. When
  every entry is eligible and \<open>abc\<close> is the entries in sorted order, the result is
  \<open>abc\<close>. The order is the lexicographic order of the character codes.
\<close>

theorem get_fileNames_csv_sorted:
  assumes "dirs fs filePath = Some fileList"
  shows "\<exists>fileNames. get_fileNames fs filePath = Inr fileNames
           \<and> sorted fileNames
           \<and> mset fileNames = filter_mset (\<lambda>file. \<exists>base. file = base @ ''.csv'') (mset fileList)
           \<and> (\<forall>fs' fileList'. dirs fs' filePath = Some fileList' \<and> mset fileList' = mset fileList
                 \<longrightarrow> get_fileNames fs' filePath = Inr fileNames)
           \<and> (\<forall>abc. sorted abc \<and> mset abc = mset fileList
                    \<and> (\<forall>file \<in> set fileList. \<exists>base. file = base @ ''.csv'')
                 \<longrightarrow> fileNames = abc)"
proof -
  let ?P = "\<lambda>file. endswith file ''.csv''"
  let ?r = "sort (filter ?P fileList)"
  have P: "?P = (\<lambda>file. \<exists>base. file = base @ ''.csv'')"
    by (simp add: endswith_iff)
  have r: "get_fileNames fs filePath = Inr ?r"
    using assms by (simp add: get_fileNames_def)
  have m: "mset ?r = filter_mset (\<lambda>file. \<exists>base. file = base @ ''.csv'') (mset fileList)"
    by (simp add: P)
  have perm: "get_fileNames fs' filePath = Inr ?r"
    if "dirs fs' filePath = Some fileList'" "mset fileList' = mset fileList" for fs' fileList'
  proof -
    have "mset (filter ?P fileList') = mset (filter ?P fileList)"
      using that(2) by simp
    then have "sort (filter ?P fileList') = ?r"
      by (intro properties_for_sort) simp_all
    then show ?thesis
      using that(1) by (simp add: get_fileNames_def)
  qed
  have only: "?r = abc"
    if "sorted abc" "mset abc = mset fileList"
      "\<forall>file \<in> set fileList. \<exists>base. file = base @ ''.csv''" for abc
  proof -
    have "filter ?P fileList = fileList"
      using that(3) by (simp add: endswith_iff)
    then show ?thesis
      using that(1,2) by (simp add: properties_for_sort)
  qed
  show ?thesis
    using r m perm only by (intro exI [of _ ?r]) (simp add: P)
qed

theorem get_fileNames_csv_sorted_witness:
  "dirs listing_fs ''data'' = Some [''c.csv'', ''x.CSV'', ''a.csv'', ''notes.txt'', ''b.csv'']
   \<and> get_fileNames listing_fs ''data'' = Inr [''a.csv'', ''b.csv'', ''c.csv'']
   \<and> get_fileNames
        (listing_fs\<lparr>dirs := [''data'' \<mapsto> [''b.csv'', ''notes.txt'', ''c.csv'', ''a.csv'', ''x.CSV'']]\<rparr>)
        ''data''
       = Inr [''a.csv'', ''b.csv'', ''c.csv'']"
proof -
  have d: "dirs listing_fs ''data'' = Some [''c.csv'', ''x.CSV'', ''a.csv'', ''notes.txt'', ''b.csv'']"
    by (simp add: listing_fs_def)
  have v: "get_fileNames listing_fs ''data'' = Inr [''a.csv'', ''b.csv'', ''c.csv'']"
    by (simp add: get_fileNames_def listing_fs_def endswith_def)
  from get_fileNames_csv_sorted [OF d] v
  have "\<forall>fs' fileList'. dirs fs' ''data'' = Some fileList'
          \<and> mset fileList' = mset [''c.csv'', ''x.CSV'', ''a.csv'', ''notes.txt'', ''b.csv'']
        \<longrightarrow> get_fileNames fs' ''data'' = Inr [''a.csv'', ''b.csv'', ''c.csv'']"
    by auto
  then have "get_fileNames
        (listing_fs\<lparr>dirs := [''data'' \<mapsto> [''b.csv'', ''notes.txt'', ''c.csv'', ''a.csv'', ''x.CSV'']]\<rparr>)
        ''data''
       = Inr [''a.csv'', ''b.csv'', ''c.csv'']"
    by simp
  with d v show ?thesis by simp
qed

subsection \<open>Loading a table\<close>

lemma map_py_int_iff: "map int64_of ls = map Some y \<longleftrightarrow> astype_int ls = Inr y"
proof (induction ls arbitrary: y)
  case Nil
  show ?case by auto
next
  case (Cons l ls)
  show ?case
    by (cases y) (auto simp: Cons.IH split: option.splits sum.splits)
qed

lemma astype_int_Inr_iff: "astype_int ls = Inr y \<longleftrightarrow> map int64_of ls = map Some y"
  by (simp add: map_py_int_iff)


lemma astype_int_total:
  "(\<forall>l \<in> set ls. int64_of l \<noteq> None) \<Longrightarrow> \<exists>y. astype_int ls = Inr y"
  by (induction ls) (auto split: option.splits sum.splits)


lemma astype_int_length: "astype_int ls = Inr y \<Longrightarrow> length y = length ls"
  by (metis astype_int_Inr_iff length_map)

lemma py_int_examples [simp]:
  "int64_of ''300'' = Some 300" "int64_of ''310'' = Some 310" "int64_of ''320'' = Some 320"
  "int64_of ''300.5'' = None" "int64_of ''low'' = None"
  "int64_of ''99999999999999999999'' = None"
  by (simp_all add: int64_of_def py_int_def strip_def is_space_def parse_unsigned_def digit_val_def)

text \<open>What \<open>get_XYZ\<close> returns once the table is read and its header converts.\<close>

lemma get_XYZ_Inr:
  assumes "read_csv fs (os_path_join filePath fileName) = Inr raw"
    and "astype_int (columns raw) = Inr y"
  shows "get_XYZ fs filePath fileName =
           Inr (\<lparr> shape = (length y, length (index raw)),
                   rows = replicate (length y) (index raw) \<rparr>,
                \<lparr> shape = (length y, length (index raw)),
                   rows = map (\<lambda>v. replicate (length (index raw)) v) y \<rparr>,
                frame_T raw)"
  using assms by (simp add: get_XYZ_def meshgrid_def frame_T_def)

lemma get_XYZ_cases:
  assumes "get_XYZ fs filePath fileName = Inr (X, Y, Z)"
  obtains raw y where "read_csv fs (os_path_join filePath fileName) = Inr raw"
    and "astype_int (columns raw) = Inr y"
  using assms by (auto simp: get_XYZ_def frame_T_def Let_def split: sum.splits)

lemma wf_frame_T: "wf_frame raw \<Longrightarrow> wf_frame (frame_T raw)"
  by (simp add: wf_frame_def frame_T_def list_all_iff)

lemma vals_frame_T:
  assumes "wf_frame raw" "i < length (columns raw)" "j < length (index raw)"
  shows "vals (frame_T raw) ! i ! j = vals raw ! j ! i"
  using assms by (simp add: wf_frame_def frame_T_def)

lemma read_sample: "read_csv sample_fs (os_path_join ''data'' ''sample.csv'') = Inr table_2x3"
  by (simp add: read_csv_def sample_fs_def os_path_join_def)

lemma wf_table_2x3: "wf_frame table_2x3"
  by (simp add: wf_frame_def table_2x3_def)

lemma get_XYZ_sample:
  "get_XYZ sample_fs ''data'' ''sample.csv'' = Inr (sample_X, sample_Y, sample_Z)"
  using read_sample
  by (simp add: get_XYZ_def meshgrid_def frame_T_def table_2x3_def upt_rec numeral_3_eq_3
      sample_X_def sample_Y_def sample_Z_def)

text \<open>
  Claim C1, as stated, fails. For the table with header 300, 310, 320 and first column
  350, 360 the three results of \<open>get_XYZ\<close> have shape (3, 2), not (2, 3), and row 0 of
  \<open>Z\<close> is not the row of emission 350 over the three excitations.
\<close>

theorem get_XYZ_shape_2_3_counterexample:
  "get_XYZ sample_fs ''data'' ''sample.csv'' = Inr (sample_X, sample_Y, sample_Z)
   \<and> shape sample_X \<noteq> (2, 3) \<and> shape sample_Y \<noteq> (2, 3) \<and> frame_shape sample_Z \<noteq> (2, 3)
   \<and> vals sample_Z ! 0 \<noteq> [Num 10, Num 20, Num 30]"
  using get_XYZ_sample by (simp add: sample_X_def sample_Y_def sample_Z_def frame_shape_def)

text \<open>
  Claim C1, amended. For a table whose header row lists the excitation wavelengths 300,
  310, 320 and whose first column lists the emission wavelengths 350, 360, \<open>get_XYZ\<close>
  returns \<open>X\<close>, \<open>Y\<close> and \<open>Z\<close> each of shape (3, 2). \<open>Z\<close> is the raw table
  transposed: its row 0 holds the intensities of excitation 300 at the two emissions.
  Every row of \<open>X\<close> is the emission sequence and row \<open>i\<close> of \<open>Y\<close> repeats the
  \<open>i\<close>-th excitation.
\<close>

theorem get_XYZ_example_shapes:
  assumes "read_csv fs (os_path_join filePath fileName) =
             Inr \<lparr> columns = [''300'', ''310'', ''320''],
                   index = [Num 350, Num 360],
                   vals = [[a, b, c], [d, e, f]] \<rparr>"
  shows "\<exists>X Y Z. get_XYZ fs filePath fileName = Inr (X, Y, Z)
           \<and> shape X = (3, 2) \<and> shape Y = (3, 2) \<and> frame_shape Z = (3, 2)
           \<and> rows X = [[Num 350, Num 360], [Num 350, Num 360], [Num 350, Num 360]]
           \<and> rows Y = [[300, 300], [310, 310], [320, 320]]
           \<and> columns Z = [Num 350, Num 360]
           \<and> index Z = [''300'', ''310'', ''320'']
           \<and> vals Z = [[a, d], [b, e], [c, f]]"
proof -
  have "astype_int [''300'', ''310'', ''320''] = Inr [300, 310, 320]"
    by simp
  with assms show ?thesis
    by (simp add: get_XYZ_def meshgrid_def frame_T_def frame_shape_def upt_rec numeral_3_eq_3)
qed

theorem get_XYZ_example_shapes_witness:
  "read_csv sample_fs (os_path_join ''data'' ''sample.csv'') =
     Inr \<lparr> columns = [''300'', ''310'', ''320''],
           index = [Num 350, Num 360],
           vals = [[Num 10, Num 20, Num 30], [Num 40, Num 50, Num 60]] \<rparr>
   \<and> (\<exists>X Y Z. get_XYZ sample_fs ''data'' ''sample.csv'' = Inr (X, Y, Z)
           \<and> shape X = (3, 2) \<and> shape Y = (3, 2) \<and> frame_shape Z = (3, 2)
           \<and> vals Z = [[Num 10, Num 40], [Num 20, Num 50], [Num 30, Num 60]])"
proof -
  have r: "read_csv sample_fs (os_path_join ''data'' ''sample.csv'') =
     Inr \<lparr> columns = [''300'', ''310'', ''320''],
           index = [Num 350, Num 360],
           vals = [[Num 10, Num 20, Num 30], [Num 40, Num 50, Num 60]] \<rparr>"
    using read_sample by (simp add: table_2x3_def)
  from get_XYZ_example_shapes [OF r] r show ?thesis
    by blast
qed

text \<open>
  Claim C2, as stated, fails. For the same table (header: excitation, first column:
  emission) the columns of the transposed table are not the excitation wavelengths, its
  index converted to integers is not the emission wavelengths, the rows of \<open>X\<close> are
  not the excitation sequence and \<open>Y\<close> does not repeat the emission sequence.
\<close>

theorem get_XYZ_axes_counterexample:
  "get_XYZ sample_fs ''data'' ''sample.csv'' = Inr (sample_X, sample_Y, sample_Z)
   \<and> columns table_2x3 = [''300'', ''310'', ''320'']
   \<and> index table_2x3 = [Num 350, Num 360]
   \<and> columns sample_Z \<noteq> [Num 300, Num 310, Num 320]
   \<and> map int64_of (index sample_Z) \<noteq> [Some 350, Some 360]
   \<and> rows sample_X \<noteq> [[Num 300, Num 310, Num 320], [Num 300, Num 310, Num 320]]
   \<and> rows sample_Y \<noteq> [[350, 350, 350], [360, 360, 360]]"
  using get_XYZ_sample by (simp add: sample_X_def sample_Y_def sample_Z_def table_2x3_def)

text \<open>
  Claim C2, amended. For every rectangular table that \<open>get_XYZ\<close> loads, the transposed
  table \<open>Z\<close> has as columns the labels of the first column of the file (the emission
  wavelengths, as parsed) and as index the labels of the header row (the excitation
  wavelengths, as text); cell \<open>(i, j)\<close> of \<open>Z\<close> is cell \<open>(j, i)\<close> of the file. \<open>y\<close> is
  the header labels converted to integers. Every row of \<open>X\<close> is the emission sequence,
  row \<open>i\<close> of \<open>Y\<close> repeats the \<open>i\<close>-th excitation wavelength, and both have the shape
  of \<open>Z\<close>: (number of excitations, number of emissions).
\<close>

theorem get_XYZ_axes:
  assumes "read_csv fs (os_path_join filePath fileName) = Inr raw"
    and "wf_frame raw"
    and "get_XYZ fs filePath fileName = Inr (X, Y, Z)"
  shows "\<exists>y. map int64_of (columns raw) = map Some y
           \<and> columns Z = index raw
           \<and> index Z = columns raw
           \<and> (\<forall>i < length (columns raw). \<forall>j < length (index raw).
                 vals Z ! i ! j = vals raw ! j ! i)
           \<and> rows X = replicate (length (columns raw)) (index raw)
           \<and> rows Y = map (\<lambda>v. replicate (length (index raw)) v) y
           \<and> shape X = frame_shape Z \<and> shape Y = frame_shape Z
           \<and> frame_shape Z = (length (columns raw), length (index raw))"
proof -
  from assms(3) obtain raw' y where r: "read_csv fs (os_path_join filePath fileName) = Inr raw'"
    and y: "astype_int (columns raw') = Inr y"
    by (rule get_XYZ_cases)
  from r assms(1) have [simp]: "raw' = raw" by simp
  from y have len: "length y = length (columns raw)"
    by (simp add: astype_int_length)
  from get_XYZ_Inr [OF assms(1)] y assms(3)
  have X: "X = \<lparr> shape = (length y, length (index raw)), rows = replicate (length y) (index raw) \<rparr>"
    and Y: "Y = \<lparr> shape = (length y, length (index raw)),
                  rows = map (\<lambda>v. replicate (length (index raw)) v) y \<rparr>"
    and Z: "Z = frame_T raw"
    by simp_all
  have "map int64_of (columns raw) = map Some y"
    using y by (simp add: astype_int_Inr_iff)
  moreover have "\<forall>i < length (columns raw). \<forall>j < length (index raw).
      vals Z ! i ! j = vals raw ! j ! i"
    using assms(2) by (simp add: Z vals_frame_T)
  ultimately show ?thesis
    by (intro exI [of _ y]) (simp add: X Y Z len frame_shape_def frame_T_def)
qed

theorem get_XYZ_axes_witness:
  "read_csv sample_fs (os_path_join ''data'' ''sample.csv'') = Inr table_2x3
   \<and> wf_frame table_2x3
   \<and> get_XYZ sample_fs ''data'' ''sample.csv'' = Inr (sample_X, sample_Y, sample_Z)
   \<and> columns sample_Z = [Num 350, Num 360]
   \<and> index sample_Z = [''300'', ''310'', ''320'']
   \<and> rows sample_X = [[Num 350, Num 360], [Num 350, Num 360], [Num 350, Num 360]]
   \<and> shape sample_X = frame_shape sample_Z \<and> shape sample_Y = frame_shape sample_Z
   \<and> frame_shape sample_Z = (3, 2)"
  using get_XYZ_axes [OF read_sample wf_table_2x3 get_XYZ_sample]
    read_sample wf_table_2x3 get_XYZ_sample
  by (auto simp: table_2x3_def)

text \<open>
  Claim C6. For every rectangular table read from the file, whatever \<open>get_XYZ\<close> returns
  satisfies \<open>X.shape = Y.shape = Z.shape\<close>, and the rows of \<open>X\<close>, \<open>Y\<close> and \<open>Z\<close> have
  the lengths their shapes say. It does return whenever every header label converts to
  a 64-bit integer.
\<close>

theorem get_XYZ_same_shape:
  assumes "read_csv fs (os_path_join filePath fileName) = Inr raw"
    and "wf_frame raw"
  shows "(\<forall>X Y Z. get_XYZ fs filePath fileName = Inr (X, Y, Z) \<longrightarrow>
            shape X = shape Y \<and> shape Y = frame_shape Z
            \<and> wf_ndarray X \<and> wf_ndarray Y \<and> wf_frame Z)
         \<and> ((\<forall>l \<in> set (columns raw). int64_of l \<noteq> None) \<longrightarrow>
            (\<exists>X Y Z. get_XYZ fs filePath fileName = Inr (X, Y, Z)))"
proof (intro conjI allI impI)
  fix X Y Z
  assume g: "get_XYZ fs filePath fileName = Inr (X, Y, Z)"
  then obtain raw' y where r: "read_csv fs (os_path_join filePath fileName) = Inr raw'"
    and y: "astype_int (columns raw') = Inr y"
    by (rule get_XYZ_cases)
  from r assms(1) have [simp]: "raw' = raw" by simp
  from get_XYZ_Inr [OF assms(1)] y g
  have X: "X = \<lparr> shape = (length y, length (index raw)), rows = replicate (length y) (index raw) \<rparr>"
    and Y: "Y = \<lparr> shape = (length y, length (index raw)),
                  rows = map (\<lambda>v. replicate (length (index raw)) v) y \<rparr>"
    and Z: "Z = frame_T raw"
    by simp_all
  have len: "length y = length (columns raw)"
    using y by (simp add: astype_int_length)
  show "shape X = shape Y" by (simp add: X Y)
  show "shape Y = frame_shape Z" by (simp add: Y Z len frame_shape_def frame_T_def)
  show "wf_ndarray X" by (simp add: X wf_ndarray_def list_all_iff)
  show "wf_ndarray Y" by (simp add: Y wf_ndarray_def list_all_iff)
  show "wf_frame Z" using assms(2) by (simp add: Z wf_frame_T)
next
  assume "\<forall>l \<in> set (columns raw). int64_of l \<noteq> None"
  then obtain y where "astype_int (columns raw) = Inr y"
    using astype_int_total by blast
  with get_XYZ_Inr [OF assms(1)] show "\<exists>X Y Z. get_XYZ fs filePath fileName = Inr (X, Y, Z)"
    by blast
qed

theorem get_XYZ_same_shape_witness:
  "read_csv sample_fs (os_path_join ''data'' ''sample.csv'') = Inr table_2x3
   \<and> wf_frame table_2x3
   \<and> get_XYZ sample_fs ''data'' ''sample.csv'' = Inr (sample_X, sample_Y, sample_Z)
   \<and> shape sample_X = shape sample_Y \<and> shape sample_Y = frame_shape sample_Z
   \<and> wf_ndarray sample_X \<and> wf_ndarray sample_Y \<and> wf_frame sample_Z"
  using get_XYZ_same_shape [OF read_sample wf_table_2x3]
    read_sample wf_table_2x3 get_XYZ_sample
  by simp




subsection \<open>Rounding the maximum and spacing the ticks\<close>

lemma rint_cases:
  fixes q :: real
  obtains (low) "q - of_int \<lfloor>q\<rfloor> < 1 / 2" "rint q = \<lfloor>q\<rfloor>"
  | (high) "q - of_int \<lfloor>q\<rfloor> > 1 / 2" "rint q = \<lfloor>q\<rfloor> + 1"
  | (tie_even) "q - of_int \<lfloor>q\<rfloor> = 1 / 2" "even \<lfloor>q\<rfloor>" "rint q = \<lfloor>q\<rfloor>"
  | (tie_odd) "q - of_int \<lfloor>q\<rfloor> = 1 / 2" "odd \<lfloor>q\<rfloor>" "rint q = \<lfloor>q\<rfloor> + 1"
  unfolding rint_def Let_def by (cases "q - of_int \<lfloor>q\<rfloor> < 1 / 2"; cases "q - of_int \<lfloor>q\<rfloor> > 1 / 2"; cases "even \<lfloor>q\<rfloor>") auto

lemma rint_bounds: "\<bar>q - of_int (rint q)\<bar> \<le> 1 / 2"
proof (cases q rule: rint_cases)
  case low
  have "of_int \<lfloor>q\<rfloor> \<le> q" by simp
  with low show ?thesis by simp
next
  case high
  have "q < of_int \<lfloor>q\<rfloor> + 1" by linarith
  with high show ?thesis by simp
next
  case tie_even
  then show ?thesis by simp
next
  case tie_odd
  then show ?thesis by simp
qed

lemma rint_unique:
  assumes near: "\<bar>q - of_int k\<bar> \<le> 1 / 2" and tie: "\<bar>q - of_int k\<bar> = 1 / 2 \<longrightarrow> even k"
  shows "rint q = k"
proof -
  have fl: "of_int \<lfloor>q\<rfloor> \<le> q" "q < of_int \<lfloor>q\<rfloor> + 1"
    by linarith+
  from near fl have "of_int \<lfloor>q\<rfloor> - 1 < (of_int k :: real)" "(of_int k :: real) < of_int \<lfloor>q\<rfloor> + 2"
    by linarith+
  then have "\<lfloor>q\<rfloor> - 1 < k" "k < \<lfloor>q\<rfloor> + 2"
    by linarith+
  then consider "k = \<lfloor>q\<rfloor>" | "k = \<lfloor>q\<rfloor> + 1"
    by linarith
  then show ?thesis
  proof cases
    case 1
    show ?thesis
    proof (cases q rule: rint_cases)
      case high
      with near 1 show ?thesis by simp
    next
      case tie_odd
      with tie 1 show ?thesis by simp
    qed (simp_all add: 1)
  next
    case 2
    show ?thesis
    proof (cases q rule: rint_cases)
      case low
      with near 2 show ?thesis by simp
    next
      case tie_even
      with tie 2 show ?thesis by simp
    qed (simp_all add: 2)
  qed
qed


lemma rint_zero_iff: "rint q = 0 \<longleftrightarrow> - (1 / 2) \<le> q \<and> q \<le> 1 / 2"
proof
  assume "rint q = 0"
  with rint_bounds [of q] have "\<bar>q\<bar> \<le> 1 / 2"
    by simp
  then show "- (1 / 2) \<le> q \<and> q \<le> 1 / 2"
    by linarith
next
  assume "- (1 / 2) \<le> q \<and> q \<le> 1 / 2"
  then show "rint q = 0"
    by (intro rint_unique) (auto simp: abs_le_iff)
qed

lemma round_neg2_zero_iff: "round_neg2 m = 0 \<longleftrightarrow> - 50 \<le> m \<and> m \<le> 50"
  by (auto simp: round_neg2_def rint_zero_iff)



lemma round_neg2_pos: "0 < round_neg2 m \<Longrightarrow> 100 \<le> round_neg2 m"
proof -
  assume "0 < round_neg2 m"
  then have "0 < rint (m / 100)"
    by (simp add: round_neg2_def)
  then have "1 \<le> rint (m / 100)" by simp
  then have "(1 :: real) \<le> of_int (rint (m / 100))" by linarith
  then show ?thesis
    by (simp add: round_neg2_def)
qed

lemma round_neg2_neg: "m < - 50 \<Longrightarrow> round_neg2 m \<le> - 100"
proof -
  assume m: "m < - 50"
  have "rint (m / 100) < 0"
  proof (rule ccontr)
    assume "\<not> rint (m / 100) < 0"
    then have "(0 :: real) \<le> of_int (rint (m / 100))" by simp
    with rint_bounds [of "m / 100"] m show False
      by (simp add: abs_le_iff)
  qed
  then have "rint (m / 100) \<le> - 1" by simp
  then have "of_int (rint (m / 100)) \<le> (- 1 :: real)" by linarith
  then show ?thesis
    by (simp add: round_neg2_def)
qed

lemma round_neg2_pos_if: "50 < m \<Longrightarrow> 100 \<le> round_neg2 m"
proof -
  assume m: "50 < m"
  have "0 < rint (m / 100)"
  proof (rule ccontr)
    assume "\<not> 0 < rint (m / 100)"
    then have "of_int (rint (m / 100)) \<le> (0 :: real)" by simp
    with rint_bounds [of "m / 100"] m show False
      by (simp add: abs_le_iff)
  qed
  then have "0 < round_neg2 m" by (simp add: round_neg2_def)
  then show ?thesis by (rule round_neg2_pos)
qed


lemma arange_count_neg:
  fixes maxZ :: real
  assumes "maxZ < - 5"
  shows "\<lceil>(maxZ + 1 - 0) / (maxZ / 5)\<rceil> = 5"
proof -
  have "(maxZ + 1 - 0) / (maxZ / 5) = 5 + 5 / maxZ"
    using assms by (simp add: field_simps)
  moreover have "- 1 < 5 / maxZ" "5 / maxZ < 0"
    using assms by (simp_all add: field_simps)
  ultimately show ?thesis
    by (simp add: ceiling_eq_iff)
qed


lemma colorbar_ticks_neg:
  assumes "maxZ < - 5"
  shows "colorbar_ticks maxZ =
           Inr [0, maxZ / 5, 2 * (maxZ / 5), 3 * (maxZ / 5), 4 * (maxZ / 5)]"
  using assms arange_count_neg [OF assms]
  by (simp add: colorbar_ticks_def arange_def upt_rec)

lemma colorbar_ticks_zero: "colorbar_ticks 0 = Inl ArangeError"
  by (simp add: colorbar_ticks_def arange_def)

subsection \<open>The maximum of the intensity matrix\<close>

lemma py_max_Max: "xs \<noteq> [] \<Longrightarrow> py_max xs = Inr (Max (set xs))"
proof (cases xs)
  case Nil
  assume "xs \<noteq> []"
  with Nil show ?thesis by simp
next
  case (Cons x rest)
  have "(\<lambda>item cur. if item > cur then item else cur) = (max :: real \<Rightarrow> real \<Rightarrow> real)"
    by (auto simp: fun_eq_iff max_def)
  then have "py_max xs = Inr (fold max rest x)"
    by (simp add: py_max_def Cons)
  also have "fold max rest x = Max (set (x # rest))"
    by (simp only: Max.set_eq_fold)
  finally show ?thesis
    by (simp only: Cons)
qed

lemma collect_map_Inr: "collect (map (\<lambda>j. Inr (f j)) js) = Inr (map f js)"
  by (induction js) simp_all

lemma max_of_max_is_maximum:
  assumes "rs \<noteq> []" and "0 < ncols" and "\<forall>row \<in> set rs. length row = ncols"
  shows "\<exists>m. max_of_max ncols rs = Inr m
           \<and> m \<in> set (concat rs) \<and> (\<forall>v \<in> set (concat rs). v \<le> m)"
proof -
  let ?cm = "\<lambda>j. Max (set (column j rs))"
  let ?ms = "map ?cm [0..<ncols]"
  have col: "column j rs \<noteq> []" for j
    using assms(1) by (simp add: column_def)
  have "DataFrame_max ncols rs = map (\<lambda>j. Inr (?cm j)) [0..<ncols]"
    by (simp add: DataFrame_max_def py_max_Max col)
  then have c: "collect (DataFrame_max ncols rs) = Inr ?ms"
    by (simp add: collect_map_Inr)
  have ne: "?ms \<noteq> []"
    using assms(2) by simp
  have m: "max_of_max ncols rs = Inr (Max (set ?ms))"
    by (simp add: max_of_max_def c py_max_Max [OF ne])
  have "Max (set ?ms) \<in> set ?ms"
    using ne by (intro Max_in) simp_all
  then obtain j where j: "j < ncols" "Max (set ?ms) = ?cm j"
    by auto
  have "?cm j \<in> set (column j rs)"
    using col by (intro Max_in) simp_all
  then obtain row where row: "row \<in> set rs" "?cm j = row ! j"
    by (auto simp: column_def)
  with assms(3) j have "?cm j \<in> set row"
    by simp
  with row j have in_set: "Max (set ?ms) \<in> set (concat rs)"
    by auto
  have ub: "v \<le> Max (set ?ms)" if "v \<in> set (concat rs)" for v
  proof -
    from that obtain row where row: "row \<in> set rs" "v \<in> set row"
      by auto
    then obtain k where k: "k < length row" "v = row ! k"
      by (auto simp: in_set_conv_nth)
    with assms(3) row have kn: "k < ncols" by simp
    have "v \<in> set (column k rs)"
      using row k by (auto simp: column_def)
    then have "v \<le> ?cm k"
      by (intro Max_ge) simp_all
    also have "?cm k \<le> Max (set ?ms)"
      using kn by (intro Max_ge) simp_all
    finally show ?thesis .
  qed
  from m in_set ub show ?thesis by blast
qed

lemma contourf_Inr:
  assumes "contourf X Y Z = Inr nums"
  shows "shape X = frame_shape Z" "shape Y = frame_shape Z"
    "2 \<le> length (index Z)" "2 \<le> length (columns Z)"
    "list_all (list_all is_num) (vals Z)"
    "nums = map (map (\<lambda>c. the (cell_num c))) (vals Z)"
  using assms by (simp_all add: contourf_def frame_shape_def split: if_splits)

lemma contourf_max:
  assumes "wf_frame Z" and "contourf X Y Z = Inr nums"
  shows "\<exists>m. max_of_max (length (columns Z)) nums = Inr m
           \<and> m \<in> set (concat nums) \<and> (\<forall>v \<in> set (concat nums). v \<le> m)"
proof (rule max_of_max_is_maximum)
  note c = contourf_Inr [OF assms(2)]
  from assms(1) c(3) have "vals Z \<noteq> []"
    by (auto simp: wf_frame_def)
  then show "nums \<noteq> []" by (simp add: c(6))
  show "0 < length (columns Z)" using c(4) by linarith
  show "\<forall>row \<in> set nums. length row = length (columns Z)"
    using assms(1) by (auto simp: c(6) wf_frame_def list_all_iff)
qed

lemma plot_contour_eq:
  assumes "contourf X Y Z = Inr nums" and "max_of_max (length (columns Z)) nums = Inr m"
  shows "plot_contour supported X Y Z filePath fileName outFormat fs =
           (case colorbar_ticks (round_neg2 m) of
              Inl e \<Rightarrow> Inl e
            | Inr ticks \<Rightarrow>
                savefig supported
                  (os_path_join filePath (take (length fileName - 4) fileName) @ ''.'' @ outFormat)
                  ticks fs)"
  using assms by (simp add: plot_contour_def Let_def split: sum.splits)

lemma os_path_join_append:
  "base \<noteq> [] \<or> ext = [] \<or> hd ext \<noteq> CHR ''/'' \<Longrightarrow>
     os_path_join a (base @ ext) = os_path_join a base @ ext"
  by (cases base) (auto simp: os_path_join_def)

subsection \<open>Drawing and saving the contour plot\<close>

lemma locked_examples [simp]:
  "locked plain_fs = {}" "locked batch_fs = {}" "locked sample_fs = {}"
  by (simp_all add: plain_fs_def batch_fs_def sample_fs_def)

lemma savefig_target_examples:
  "savefig_target ''data/peak.png'' = (''data/peak.png'', ''png'')"
  "savefig_target ''data/peak.svg'' = (''data/peak.svg'', ''svg'')"
  "savefig_target ''data/s1.png'' = (''data/s1.png'', ''png'')"
  "savefig_target ''data/s3.png'' = (''data/s3.png'', ''png'')"
  "savefig_target ''data/.png'' = (''data/.png.png'', ''png'')"
  by (simp_all add: savefig_target_def splitext_format_def basename_def rstrip_dots_def
      lower_def lower_char_def Let_def)

lemma savefig_Inr:
  assumes "savefig_target fname = (target, fmt)" and "supported fmt" and "target \<notin> locked fs"
  shows "savefig supported fname ticks fs =
           Inr (fs\<lparr>files := (files fs)(target \<mapsto> Image fmt ticks)\<rparr>)"
  using assms by (simp add: savefig_def)

lemma savefig_cases:
  assumes "savefig supported fname ticks fs = Inr fs'"
  shows "supported (snd (savefig_target fname))"
    and "fst (savefig_target fname) \<notin> locked fs"
    and "fs' = fs\<lparr>files := (files fs)
           (fst (savefig_target fname) \<mapsto> Image (snd (savefig_target fname)) ticks)\<rparr>"
  using assms by (auto simp: savefig_def split: prod.splits if_splits)

lemma contourf_2x2:
  "contourf grid_X grid_Y (frame_T (table_2x2 a b c d)) = Inr [[a, c], [b, d]]"
  by (simp add: contourf_def grid_X_def grid_Y_def frame_T_def table_2x2_def frame_shape_def
      is_num_def upt_rec)

lemma wf_2x2: "wf_frame (frame_T (table_2x2 a b c d))"
  by (simp add: wf_frame_def frame_T_def table_2x2_def upt_rec)

lemma columns_2x2: "length (columns (frame_T (table_2x2 a b c d))) = 2"
  by (simp add: frame_T_def table_2x2_def)

lemma max_of_max_2x2:
  "max_of_max 2 [[a, c], [b, d]] =
     Inr (let m0 = (if b > a then b else a); m1 = (if d > c then d else c)
          in if m1 > m0 then m1 else m0)"
  by (simp add: max_of_max_def DataFrame_max_def column_def py_max_def upt_rec numeral_2_eq_2 Let_def)

lemma maximum_unique:
  fixes m :: real
  assumes "m \<in> S" "\<forall>v \<in> S. v \<le> m" "m' \<in> S" "\<forall>v \<in> S. v \<le> m'"
  shows "m' = m"
  using assms by (meson order_antisym)

lemma contourf_cells:
  assumes "contourf X Y Z = Inr nums"
  shows "set (concat nums) = {v. Num v \<in> set (concat (vals Z))}"
proof -
  note c = contourf_Inr [OF assms]
  have n: "\<exists>v. x = Num v" if "x \<in> set row" "row \<in> set (vals Z)" for x row
  proof -
    from c(5) that have "is_num x"
      by (simp add: list_all_iff)
    then show ?thesis
      by (cases x) (simp_all add: is_num_def)
  qed
  show ?thesis
  proof (intro set_eqI iffI)
    fix v assume "v \<in> set (concat nums)"
    then obtain row x where x: "row \<in> set (vals Z)" "x \<in> set row" "v = the (cell_num x)"
      by (auto simp: c(6))
    with n obtain w where "x = Num w" by blast
    with x show "v \<in> {v. Num v \<in> set (concat (vals Z))}"
      by auto
  next
    fix v assume "v \<in> {v. Num v \<in> set (concat (vals Z))}"
    then obtain row where "row \<in> set (vals Z)" "Num v \<in> set row"
      by auto
    then have "the (cell_num (Num v)) \<in> set (concat nums)"
      unfolding c(6) by (auto simp del: cell_num.simps intro!: bexI [of _ row] imageI)
    then show "v \<in> set (concat nums)" by simp
  qed
qed


lemma plot_2x2:
  "plot_contour supported grid_X grid_Y (frame_T (table_2x2 a b c d)) filePath fileName outFormat fs =
     (case max_of_max 2 [[a, c], [b, d]] of
        Inl e \<Rightarrow> Inl e
      | Inr m \<Rightarrow>
          (case colorbar_ticks (round_neg2 m) of
             Inl e \<Rightarrow> Inl e
           | Inr ticks \<Rightarrow>
               savefig supported
                 (os_path_join filePath (take (length fileName - 4) fileName) @ ''.'' @ outFormat)
                 ticks fs))"
  by (simp add: plot_contour_def contourf_2x2 columns_2x2 Let_def split: sum.splits)

lemma round_neg2_examples:
  "round_neg2 437 = 400" "round_neg2 460 = 500" "round_neg2 (- 60) = - 100" "round_neg2 30 = 0"
  by (simp_all add: round_neg2_def rint_def Let_def)

lemma colorbar_ticks_examples:
  "colorbar_ticks 400 = Inr [0, 80, 160, 240, 320, 400]"
  "colorbar_ticks 500 = Inr [0, 100, 200, 300, 400, 500]"
  "colorbar_ticks (- 100) = Inr [0, - 20, - 40, - 60, - 80]"
  by (simp_all add: colorbar_ticks_def arange_def upt_rec)

lemma plain_out_path:
  "os_path_join ''data'' (take (length ''peak.csv'' - 4) ''peak.csv'') @ ''.'' @ ''png'' = ''data/peak.png''"
  by (simp add: os_path_join_def)



lemma max_of_max_eq:
  assumes "wf_frame Z" and "contourf X Y Z = Inr nums"
    and "m \<in> set (concat nums)" and "\<forall>v \<in> set (concat nums). v \<le> m"
  shows "max_of_max (length (columns Z)) nums = Inr m"
proof -
  from contourf_max [OF assms(1,2)] obtain m'
    where m': "max_of_max (length (columns Z)) nums = Inr m'"
      "m' \<in> set (concat nums)" "\<forall>v \<in> set (concat nums). v \<le> m'"
    by blast
  then have "m' = m"
    using assms(3,4) by (intro maximum_unique [of m "set (concat nums)"]) simp_all
  with m'(1) show ?thesis by simp
qed

text \<open>
  Claim C7, amended. For every rectangular intensity matrix that \<open>contourf\<close> accepts
  and whose maximum \<open>m\<close> is not positive: when \<open>- 50 \<le> m\<close> (so that \<open>m\<close> rounds to 0)
  \<open>plot_contour\<close> raises the error of \<open>np.arange\<close> with a zero step and writes
  nothing; when \<open>m < - 50\<close> the rounded maximum is at most \<open>- 100\<close>, no error is raised
  on account of the maximum, and with a supported format the figure is written, with the
  five ticks 0, \<open>maxZ/5\<close>, ..., \<open>4 maxZ/5\<close> (\<open>savefig\<close> succeeds when the format of
  the output name is supported and the file can be written).
\<close>

theorem plot_contour_nonpositive_max:
  assumes "wf_frame Z" and "contourf X Y Z = Inr nums"
    and "m \<in> set (concat nums)" and "\<forall>v \<in> set (concat nums). v \<le> m"
    and "m \<le> 0"
  shows "(- 50 \<le> m \<longrightarrow>
            plot_contour supported X Y Z filePath fileName outFormat fs = Inl ArangeError)
         \<and> (m < - 50 \<longrightarrow>
              round_neg2 m \<le> - 100
              \<and> plot_contour supported X Y Z filePath fileName outFormat fs =
                  savefig supported
                    (os_path_join filePath (take (length fileName - 4) fileName) @ ''.'' @ outFormat)
                    [0, round_neg2 m / 5, 2 * (round_neg2 m / 5), 3 * (round_neg2 m / 5),
                     4 * (round_neg2 m / 5)]
                    fs)
         \<and> (m < - 50
              \<and> supported (snd (savefig_target
                    (os_path_join filePath (take (length fileName - 4) fileName) @ ''.'' @ outFormat)))
              \<and> fst (savefig_target
                    (os_path_join filePath (take (length fileName - 4) fileName) @ ''.'' @ outFormat))
                  \<notin> locked fs \<longrightarrow>
              (\<exists>fs'. plot_contour supported X Y Z filePath fileName outFormat fs = Inr fs'))"
proof -
  note p = plot_contour_eq [OF assms(2) max_of_max_eq [OF assms(1-4)]]
  have zero: "plot_contour supported X Y Z filePath fileName outFormat fs = Inl ArangeError"
    if "- 50 \<le> m"
  proof -
    from that assms(5) have "round_neg2 m = 0"
      by (simp add: round_neg2_zero_iff)
    then show ?thesis
      by (simp add: p colorbar_ticks_zero)
  qed
  have neg: "round_neg2 m \<le> - 100" if "m < - 50"
    using that by (rule round_neg2_neg)
  have ticks: "colorbar_ticks (round_neg2 m) =
      Inr [0, round_neg2 m / 5, 2 * (round_neg2 m / 5), 3 * (round_neg2 m / 5),
           4 * (round_neg2 m / 5)]" if "m < - 50"
    using neg [OF that] by (intro colorbar_ticks_neg) simp
  show ?thesis
    using zero neg ticks by (auto simp: p savefig_def split: prod.splits)
qed

text \<open>
  Claim C7, as stated, fails. A matrix whose maximum is \<open>- 60\<close> has no positive
  maximum, yet \<open>plot_contour\<close> raises nothing and writes the figure.
\<close>

theorem plot_contour_negative_max_counterexample:
  "contourf grid_X grid_Y (frame_T (table_2x2 (- 60) (- 70) (- 80) (- 90))) =
     Inr [[- 60, - 80], [- 70, - 90]]
   \<and> max_of_max 2 [[- 60, - 80], [- 70, - 90]] = Inr (- 60)
   \<and> plot_contour doc_formats grid_X grid_Y (frame_T (table_2x2 (- 60) (- 70) (- 80) (- 90)))
        ''data'' ''peak.csv'' ''png'' plain_fs =
       Inr (plain_fs\<lparr>files := (files plain_fs)
              (''data/peak.png'' \<mapsto> Image ''png'' [0, - 20, - 40, - 60, - 80])\<rparr>)"
  by (simp add: contourf_2x2 plot_2x2 max_of_max_2x2 round_neg2_examples colorbar_ticks_examples
      savefig_def savefig_target_examples doc_formats_def os_path_join_def)

theorem plot_contour_nonpositive_max_witness:
  "wf_frame (frame_T (table_2x2 (- 10) (- 20) (- 30) (- 40)))
   \<and> contourf grid_X grid_Y (frame_T (table_2x2 (- 10) (- 20) (- 30) (- 40))) =
       Inr [[- 10, - 30], [- 20, - 40]]
   \<and> plot_contour doc_formats grid_X grid_Y (frame_T (table_2x2 (- 10) (- 20) (- 30) (- 40)))
        ''data'' ''peak.csv'' ''png'' plain_fs = Inl ArangeError
   \<and> (\<exists>fs'. plot_contour doc_formats grid_X grid_Y (frame_T (table_2x2 (- 60) (- 70) (- 80) (- 90)))
        ''data'' ''peak.csv'' ''png'' plain_fs = Inr fs')"
proof -
  have a: "(- 10 :: real) \<in> set (concat [[- 10, - 30], [- 20, - 40]])"
    "\<forall>v \<in> set (concat [[- 10, - 30], [- 20, - 40 :: real]]). v \<le> - 10"
    "(- 10 :: real) \<le> 0"
    by simp_all
  have b: "(- 60 :: real) \<in> set (concat [[- 60, - 80], [- 70, - 90]])"
    "\<forall>v \<in> set (concat [[- 60, - 80], [- 70, - 90 :: real]]). v \<le> - 60"
    "(- 60 :: real) \<le> 0"
    by simp_all
  have d: "doc_formats ''png''"
    by (simp add: doc_formats_def)
  from plot_contour_nonpositive_max [OF wf_2x2 contourf_2x2 a,
      where supported = doc_formats and filePath = "''data''" and fileName = "''peak.csv''"
        and outFormat = "''png''" and fs = plain_fs]
  have 1: "plot_contour doc_formats grid_X grid_Y (frame_T (table_2x2 (- 10) (- 20) (- 30) (- 40)))
        ''data'' ''peak.csv'' ''png'' plain_fs = Inl ArangeError"
    by simp
  from plot_contour_nonpositive_max [OF wf_2x2 contourf_2x2 b,
      where supported = doc_formats and filePath = "''data''" and fileName = "''peak.csv''"
        and outFormat = "''png''" and fs = plain_fs] d
  have 2: "\<exists>fs'. plot_contour doc_formats grid_X grid_Y (frame_T (table_2x2 (- 60) (- 70) (- 80) (- 90)))
        ''data'' ''peak.csv'' ''png'' plain_fs = Inr fs'"
    by (simp add: savefig_def savefig_target_examples os_path_join_def)
  from 1 2 show ?thesis
    by (simp add: wf_2x2 contourf_2x2)
qed

text \<open>
  Claim C10. For every rectangular intensity matrix whose maximum \<open>m\<close> is strictly
  positive and below 50, \<open>maxZ\<close> is 0, the tick step \<open>maxZ/5\<close> is 0 and \<open>np.arange\<close>
  raises: \<open>plot_contour\<close> ends with an error, so \<open>savefig\<close> is never reached and
  nothing is written. Whatever \<open>X\<close> and \<open>Y\<close> are, the call fails; where \<open>contourf\<close>
  accepts the data the error is the one of \<open>np.arange\<close>.
\<close>

theorem plot_contour_low_max_rejected:
  assumes "wf_frame Z"
    and "Num m \<in> set (concat (vals Z))"
    and "\<forall>v. Num v \<in> set (concat (vals Z)) \<longrightarrow> v \<le> m"
    and "0 < m" and "m < 50"
  shows "round_neg2 m = 0
         \<and> colorbar_ticks (round_neg2 m) = Inl ArangeError
         \<and> (\<exists>e. plot_contour supported X Y Z filePath fileName outFormat fs = Inl e)
         \<and> (\<forall>nums. contourf X Y Z = Inr nums \<longrightarrow>
               plot_contour supported X Y Z filePath fileName outFormat fs = Inl ArangeError)"
proof -
  have r: "round_neg2 m = 0"
    using assms(4,5) by (simp add: round_neg2_zero_iff)
  have t: "colorbar_ticks (round_neg2 m) = Inl ArangeError"
    by (simp add: r colorbar_ticks_zero)
  have a: "plot_contour supported X Y Z filePath fileName outFormat fs = Inl ArangeError"
    if "contourf X Y Z = Inr nums" for nums
  proof -
    have eq: "set (concat nums) = {v. Num v \<in> set (concat (vals Z))}"
      by (rule contourf_cells [OF that])
    have "m \<in> set (concat nums)"
      unfolding eq using assms(2) by blast
    moreover have "\<forall>v \<in> set (concat nums). v \<le> m"
      unfolding eq using assms(3) by blast
    ultimately have "max_of_max (length (columns Z)) nums = Inr m"
      by (rule max_of_max_eq [OF assms(1) that])
    from plot_contour_eq [OF that this] t
    show ?thesis by simp
  qed
  have "\<exists>e. plot_contour supported X Y Z filePath fileName outFormat fs = Inl e"
  proof (cases "contourf X Y Z")
    case (Inl e)
    then show ?thesis by (simp add: plot_contour_def)
  next
    case (Inr nums)
    with a show ?thesis by blast
  qed
  with r t a show ?thesis by blast
qed

theorem plot_contour_low_max_rejected_witness:
  "wf_frame (frame_T (table_2x2 12 30 7 21))
   \<and> Num 30 \<in> set (concat (vals (frame_T (table_2x2 12 30 7 21))))
   \<and> (0 :: real) < 30 \<and> (30 :: real) < 50
   \<and> contourf grid_X grid_Y (frame_T (table_2x2 12 30 7 21)) = Inr [[12, 7], [30, 21]]
   \<and> plot_contour doc_formats grid_X grid_Y (frame_T (table_2x2 12 30 7 21))
        ''data'' ''peak.csv'' ''png'' plain_fs = Inl ArangeError"
proof -
  have v: "vals (frame_T (table_2x2 12 30 7 21)) = [[Num 12, Num 7], [Num 30, Num 21]]"
    by (simp add: frame_T_def table_2x2_def upt_rec)
  have a: "Num 30 \<in> set (concat (vals (frame_T (table_2x2 12 30 7 21))))"
    "\<forall>v. Num v \<in> set (concat (vals (frame_T (table_2x2 12 30 7 21)))) \<longrightarrow> v \<le> 30"
    "(0 :: real) < 30" "(30 :: real) < 50"
    by (auto simp: v)
  from plot_contour_low_max_rejected [OF wf_2x2 a,
      where supported = doc_formats and filePath = "''data''" and fileName = "''peak.csv''"
        and outFormat = "''png''" and fs = plain_fs and X = grid_X and Y = grid_Y]
  show ?thesis
    using a(1) by (simp add: wf_2x2 contourf_2x2)
qed

lemma colorbar_ticks_nonzero: "maxZ \<noteq> 0 \<Longrightarrow> \<exists>ticks. colorbar_ticks maxZ = Inr ticks"
  by (simp add: colorbar_ticks_def arange_def)

lemma plot_contour_Inr:
  assumes "plot_contour supported X Y Z filePath fileName outFormat fs = Inr fs'"
  shows "\<exists>ticks. savefig supported
           (os_path_join filePath (take (length fileName - 4) fileName) @ ''.'' @ outFormat)
           ticks fs = Inr fs'"
  using assms by (auto simp: plot_contour_def Let_def split: sum.splits)

lemma os_path_join_dir:
  assumes "CHR ''/'' \<notin> set b"
  shows "\<exists>dir. os_path_join a b = dir @ b \<and> (dir = [] \<or> last dir = CHR ''/'')"
proof -
  have "\<not> (b \<noteq> [] \<and> hd b = CHR ''/'')"
    using assms by (cases b) auto
  then show ?thesis
    by (cases "a = [] \<or> last a = CHR ''/''")
      (auto simp: os_path_join_def intro: exI [of _ a] exI [of _ "a @ ''/''"])
qed

lemma basename_plain:
  assumes "CHR ''/'' \<notin> set name" and "dir = [] \<or> last dir = CHR ''/''"
  shows "basename (dir @ name) = name"
proof -
  have t: "takeWhile (\<lambda>c. c \<noteq> CHR ''/'') (rev dir) = []"
    using assms(2) by (cases dir rule: rev_cases) auto
  have "takeWhile (\<lambda>c. c \<noteq> CHR ''/'') (rev name @ rev dir) = rev name"
    using assms(1) by (subst takeWhile_append2) (auto simp: t)
  then show ?thesis
    by (simp add: basename_def)
qed

lemma splitext_format_plain:
  assumes "CHR ''/'' \<notin> set base" and "\<exists>c \<in> set base. c \<noteq> CHR ''.''"
    and "CHR ''/'' \<notin> set fmt" and "CHR ''.'' \<notin> set fmt"
    and "dir = [] \<or> last dir = CHR ''/''"
  shows "splitext_format (dir @ base @ ''.'' @ fmt) = fmt"
proof -
  let ?b = "dropWhile (\<lambda>c. c = CHR ''.'') base"
  have "CHR ''/'' \<notin> set (base @ ''.'' @ fmt)"
    using assms(1,3) by simp
  then have bn: "basename (dir @ base @ ''.'' @ fmt) = base @ ''.'' @ fmt"
    using assms(5) by (rule basename_plain)
  from assms(2) obtain c where "c \<in> set base" "\<not> c = CHR ''.''"
    by blast
  then have d: "dropWhile (\<lambda>c. c = CHR ''.'') (base @ ''.'' @ fmt) = ?b @ ''.'' @ fmt"
    by (rule dropWhile_append1)
  have tw: "takeWhile (\<lambda>c. c \<noteq> CHR ''.'') (rev fmt @ ''.'' @ rev ?b) = rev fmt"
    using assms(4) by (subst takeWhile_append2) auto
  have "splitext_format (dir @ base @ ''.'' @ fmt) =
      (if CHR ''.'' \<in> set (?b @ ''.'' @ fmt)
       then rev (takeWhile (\<lambda>c. c \<noteq> CHR ''.'') (rev (?b @ ''.'' @ fmt))) else [])"
    unfolding splitext_format_def bn d Let_def ..
  also have "\<dots> = fmt"
    using tw by simp
  finally show ?thesis .
qed

lemma savefig_target_plain:
  assumes "CHR ''/'' \<notin> set base" and "\<exists>c \<in> set base. c \<noteq> CHR ''.''"
    and "fmt \<noteq> []" and "CHR ''/'' \<notin> set fmt" and "CHR ''.'' \<notin> set fmt"
  shows "savefig_target (os_path_join filePath base @ ''.'' @ fmt) =
           (os_path_join filePath base @ ''.'' @ fmt, lower fmt)"
proof -
  from os_path_join_dir [OF assms(1)] obtain dir
    where dir: "os_path_join filePath base = dir @ base" "dir = [] \<or> last dir = CHR ''/''"
    by blast
  have "splitext_format (dir @ base @ ''.'' @ fmt) = fmt"
    using assms(1,2,4,5) dir(2) by (rule splitext_format_plain)
  then show ?thesis
    using assms(3) by (simp add: savefig_target_def dir(1))
qed

text \<open>
  Claim C9, as stated, fails. \<open>.csv\<close> is a name that ends with \<open>.csv\<close>; stripping the
  extension leaves the empty base, the name passed to \<open>savefig\<close> is \<open>data/.png\<close>, which
  has no extension, and the image is written at \<open>data/.png.png\<close>.
\<close>

theorem plot_contour_dot_file_counterexample:
  "endswith ''.csv'' ''.csv''
   \<and> os_path_join ''data'' (take (length ''.csv'' - 4) ''.csv'') @ ''.'' @ ''png'' = ''data/.png''
   \<and> plot_contour doc_formats grid_X grid_Y (frame_T (table_2x2 120 80 437 15))
        ''data'' ''.csv'' ''png'' plain_fs =
       Inr (plain_fs\<lparr>files := (files plain_fs)
              (''data/.png.png'' \<mapsto> Image ''png'' [0, 80, 160, 240, 320, 400])\<rparr>)
   \<and> ''data/.png.png'' \<noteq> ''data/.png''"
  by (simp add: endswith_def plot_2x2 max_of_max_2x2 round_neg2_examples colorbar_ticks_examples
      savefig_def savefig_target_examples doc_formats_def os_path_join_def)

text \<open>
  Claim C9, amended. For every input name \<open>base.csv\<close> whose base is a file name (no
  separator) with at least one character other than a dot, and every output format that
  is a plain extension (not empty, no dot, no separator): whenever \<open>plot_contour\<close>
  returns, the format in lower case is supported, and the file system differs from the
  one before only at the path \<open>join(filePath, base) + '.' + outFormat\<close>, which now holds
  the figure whatever it held before; the input path is \<open>join(filePath, base) + '.csv'\<close>,
  so both are in the same directory. \<open>plot_contour\<close> does return when the format is
  supported, the file can be written, \<open>contourf\<close> accepts the data and the rounded
  maximum is not 0.
\<close>

theorem plot_contour_output_path:
  assumes "fileName = base @ ''.csv''"
    and "CHR ''/'' \<notin> set base" and "\<exists>c \<in> set base. c \<noteq> CHR ''.''"
    and "outFormat \<noteq> []" and "CHR ''/'' \<notin> set outFormat" and "CHR ''.'' \<notin> set outFormat"
  shows "os_path_join filePath fileName = os_path_join filePath base @ ''.csv''
         \<and> (\<forall>fs'. plot_contour supported X Y Z filePath fileName outFormat fs = Inr fs' \<longrightarrow>
               supported (lower outFormat)
               \<and> (\<exists>ticks. fs' = fs\<lparr>files := (files fs)
                     (os_path_join filePath base @ ''.'' @ outFormat
                        \<mapsto> Image (lower outFormat) ticks)\<rparr>)
               \<and> (\<exists>ticks. files fs' (os_path_join filePath base @ ''.'' @ outFormat)
                     = Some (Image (lower outFormat) ticks))
               \<and> (\<forall>path. path \<noteq> os_path_join filePath base @ ''.'' @ outFormat \<longrightarrow>
                     files fs' path = files fs path)
               \<and> dirs fs' = dirs fs)
         \<and> (\<forall>nums m. supported (lower outFormat)
                \<and> os_path_join filePath base @ ''.'' @ outFormat \<notin> locked fs
                \<and> contourf X Y Z = Inr nums
                \<and> max_of_max (length (columns Z)) nums = Inr m \<and> round_neg2 m \<noteq> 0 \<longrightarrow>
              (\<exists>fs'. plot_contour supported X Y Z filePath fileName outFormat fs = Inr fs'))"
proof (intro conjI allI impI)
  let ?path = "os_path_join filePath base @ ''.'' @ outFormat"
  have t: "take (length fileName - 4) fileName = base"
    by (simp add: assms(1))
  have target: "savefig_target ?path = (?path, lower outFormat)"
    using assms(2-6) by (rule savefig_target_plain)
  show "os_path_join filePath fileName = os_path_join filePath base @ ''.csv''"
    unfolding assms(1) by (rule os_path_join_append) simp
  {
    fix fs'
    assume p: "plot_contour supported X Y Z filePath fileName outFormat fs = Inr fs'"
    from plot_contour_Inr [OF p] obtain ticks
      where sv: "savefig supported ?path ticks fs = Inr fs'"
      by (auto simp: t)
    from savefig_cases [OF sv, unfolded target]
    have s: "supported (lower outFormat)"
      and f: "fs' = fs\<lparr>files := (files fs)(?path \<mapsto> Image (lower outFormat) ticks)\<rparr>"
      by simp_all
    show "supported (lower outFormat)" by (rule s)
    show "\<exists>ticks. fs' = fs\<lparr>files := (files fs)(?path \<mapsto> Image (lower outFormat) ticks)\<rparr>"
      using f by blast
    show "\<exists>ticks. files fs' ?path = Some (Image (lower outFormat) ticks)"
      by (simp add: f)
    show "dirs fs' = dirs fs" by (simp add: f)
    fix path
    assume "path \<noteq> ?path"
    then show "files fs' path = files fs path"
      by (simp add: f)
  }
  {
    fix nums m
    assume a: "supported (lower outFormat) \<and> ?path \<notin> locked fs \<and> contourf X Y Z = Inr nums
      \<and> max_of_max (length (columns Z)) nums = Inr m \<and> round_neg2 m \<noteq> 0"
    then obtain ticks where "colorbar_ticks (round_neg2 m) = Inr ticks"
      using colorbar_ticks_nonzero by blast
    with a have "plot_contour supported X Y Z filePath fileName outFormat fs =
        savefig supported ?path ticks fs"
      by (simp add: plot_contour_eq [of X Y Z nums m] t)
    moreover have "savefig supported ?path ticks fs =
        Inr (fs\<lparr>files := (files fs)(?path \<mapsto> Image (lower outFormat) ticks)\<rparr>)"
      using a by (intro savefig_Inr [OF target]) simp_all
    ultimately show "\<exists>fs'. plot_contour supported X Y Z filePath fileName outFormat fs = Inr fs'"
      by simp
  }
qed

theorem plot_contour_output_path_witness:
  "''peak.csv'' = ''peak'' @ ''.csv''
   \<and> files plain_fs ''data/peak.png'' = Some Unparsable
   \<and> os_path_join ''data'' ''peak.csv'' = ''data/peak.csv''
   \<and> os_path_join ''data'' ''peak'' @ ''.'' @ ''svg'' = ''data/peak.svg''
   \<and> plot_contour doc_formats grid_X grid_Y (frame_T (table_2x2 120 80 437 15))
        ''data'' ''peak.csv'' ''png'' plain_fs =
       Inr (plain_fs\<lparr>files := (files plain_fs)
              (''data/peak.png'' \<mapsto> Image ''png'' [0, 80, 160, 240, 320, 400])\<rparr>)
   \<and> (\<exists>fs'. plot_contour doc_formats grid_X grid_Y (frame_T (table_2x2 120 80 437 15))
        ''data'' ''peak.csv'' ''svg'' plain_fs = Inr fs'
        \<and> (\<exists>ticks. files fs' ''data/peak.svg'' = Some (Image ''svg'' ticks))
        \<and> files fs' ''data/peak.png'' = Some Unparsable)"
proof -
  have n: "''peak.csv'' = ''peak'' @ ''.csv''" by simp
  have h: "CHR ''/'' \<notin> set ''peak''" "\<exists>c \<in> set ''peak''. c \<noteq> CHR ''.''"
    "''svg'' \<noteq> []" "CHR ''/'' \<notin> set ''svg''" "CHR ''.'' \<notin> set ''svg''"
    by simp_all
  have m: "max_of_max (length (columns (frame_T (table_2x2 120 80 437 15)))) [[120, 437], [80, 15]]
      = Inr 437"
    by (simp add: columns_2x2 max_of_max_2x2)
  have r: "round_neg2 437 \<noteq> 0"
    by (simp add: round_neg2_examples)
  have l: "lower ''svg'' = ''svg''"
    by (simp add: lower_def lower_char_def)
  have d: "doc_formats (lower ''svg'')"
    by (simp add: l doc_formats_def)
  have j: "os_path_join ''data'' ''peak'' @ ''.'' @ ''svg'' = ''data/peak.svg''"
    by (simp add: os_path_join_def)
  have k: "os_path_join ''data'' ''peak'' @ ''.'' @ ''svg'' \<notin> locked plain_fs"
    by simp
  have png: "plot_contour doc_formats grid_X grid_Y (frame_T (table_2x2 120 80 437 15))
        ''data'' ''peak.csv'' ''png'' plain_fs =
       Inr (plain_fs\<lparr>files := (files plain_fs)
              (''data/peak.png'' \<mapsto> Image ''png'' [0, 80, 160, 240, 320, 400])\<rparr>)"
    by (simp add: plot_2x2 max_of_max_2x2 round_neg2_examples colorbar_ticks_examples
        savefig_def savefig_target_examples doc_formats_def os_path_join_def)
  note w = plot_contour_output_path [OF n h, where filePath = "''data''"
      and supported = doc_formats and fs = plain_fs and X = grid_X and Y = grid_Y
      and Z = "frame_T (table_2x2 120 80 437 15)"]
  have "\<exists>fs'. plot_contour doc_formats grid_X grid_Y (frame_T (table_2x2 120 80 437 15))
        ''data'' ''peak.csv'' ''svg'' plain_fs = Inr fs'"
    using w [THEN conjunct2, THEN conjunct2, rule_format, of "[[120, 437], [80, 15]]" 437]
      d k contourf_2x2 [of 120 80 437 15] m r
    by blast
  then obtain fs' where fs': "plot_contour doc_formats grid_X grid_Y
        (frame_T (table_2x2 120 80 437 15)) ''data'' ''peak.csv'' ''svg'' plain_fs = Inr fs'"
    ..
  note o = w [THEN conjunct2, THEN conjunct1, rule_format, OF fs', unfolded j l]
  have "\<exists>ticks. files fs' ''data/peak.svg'' = Some (Image ''svg'' ticks)"
    using o by simp
  moreover have "files fs' ''data/peak.png'' = files plain_fs ''data/peak.png''"
    using o [THEN conjunct2, THEN conjunct2, THEN conjunct2, THEN conjunct1, rule_format,
        of "''data/peak.png''"]
    by simp
  ultimately show ?thesis
    using fs' png by (simp add: plain_fs_def os_path_join_def)
qed

subsection \<open>The batch run\<close>

lemma main_loop_success:
  "plot_file supported filePath outFormat file (disk st) = Inr fs' \<Longrightarrow>
     main_loop supported filePath outFormat (file # rest) st =
       main_loop supported filePath outFormat rest (st\<lparr>count_ok := count_ok st + 1, disk := fs'\<rparr>)"
  by simp

lemma main_loop_failure:
  "plot_file supported filePath outFormat file (disk st) = Inl e \<Longrightarrow>
     main_loop supported filePath outFormat (file # rest) st =
       main_loop supported filePath outFormat rest
         (st\<lparr>printed := printed st @ [''Failed to plot '' @ file @ ''.'']\<rparr>)"
  by simp

text \<open>
  Every file of the batch either adds one to the success count or adds one failure line:
  no exception leaves the loop.
\<close>

lemma main_loop_accounts:
  "count_ok (main_loop supported filePath outFormat fileNames st)
     + length (printed (main_loop supported filePath outFormat fileNames st))
   = count_ok st + length (printed st) + length fileNames"
proof (induction fileNames arbitrary: st)
  case Nil
  show ?case by simp
next
  case (Cons name rest)
  show ?case
    by (cases "plot_file supported filePath outFormat name (disk st)") (simp_all add: Cons.IH)
qed

lemma get_XYZ_2x2:
  assumes "read_csv fs (os_path_join filePath file) = Inr (table_2x2 a b c d)"
  shows "get_XYZ fs filePath file = Inr (grid_X, grid_Y, frame_T (table_2x2 a b c d))"
proof -
  have "astype_int (columns (table_2x2 a b c d)) = Inr [300, 310]"
    by (simp add: table_2x2_def)
  from get_XYZ_Inr [OF assms this] show ?thesis
    by (simp add: grid_X_def grid_Y_def table_2x2_def)
qed

lemma plot_file_2x2:
  assumes "read_csv fs (os_path_join filePath file) = Inr (table_2x2 a b c d)"
  shows "plot_file supported filePath outFormat file fs =
           plot_contour supported grid_X grid_Y (frame_T (table_2x2 a b c d)) filePath file outFormat fs"
  by (simp add: plot_file_def get_XYZ_2x2 [OF assms])

lemma round_neg2_610: "round_neg2 610 = 600"
  by (simp add: round_neg2_def rint_def Let_def)

lemma colorbar_ticks_600: "colorbar_ticks 600 = Inr [0, 120, 240, 360, 480, 600]"
  by (simp add: colorbar_ticks_def arange_def upt_rec)

lemma batch_names: "get_fileNames batch_fs ''data'' = Inr [''s1.csv'', ''s2.csv'', ''s3.csv'']"
  by (simp add: get_fileNames_def batch_fs_def endswith_def)

lemma batch_s1:
  "plot_file doc_formats ''data'' ''png'' ''s1.csv'' batch_fs =
     Inr (batch_fs\<lparr>files := (files batch_fs)
            (''data/s1.png'' \<mapsto> Image ''png'' [0, 80, 160, 240, 320, 400])\<rparr>)"
proof -
  have "read_csv batch_fs (os_path_join ''data'' ''s1.csv'') = Inr (table_2x2 120 80 437 15)"
    by (simp add: read_csv_def batch_fs_def os_path_join_def)
  then show ?thesis
    by (simp add: plot_file_2x2 plot_2x2 max_of_max_2x2 round_neg2_examples
        colorbar_ticks_examples savefig_def savefig_target_examples doc_formats_def os_path_join_def)
qed

lemma batch_s2:
  assumes "files fs ''data/s2.csv'' = files batch_fs ''data/s2.csv''"
  shows "plot_file doc_formats ''data'' ''png'' ''s2.csv'' fs = Inl ContourfError"
proof -
  have "read_csv fs (os_path_join ''data'' ''s2.csv'') =
      Inr \<lparr> columns = [''300'', ''310''], index = [Num 350, Num 360],
            vals = [[Num 1, Txt ''abc''], [Num 3, Num 4]] \<rparr>"
    using assms by (simp add: read_csv_def batch_fs_def os_path_join_def)
  then show ?thesis
    by (simp add: plot_file_def get_XYZ_def meshgrid_def frame_T_def plot_contour_def
        contourf_def frame_shape_def is_num_def upt_rec)
qed

lemma batch_s3:
  assumes "files fs ''data/s3.csv'' = files batch_fs ''data/s3.csv''" and "locked fs = {}"
  shows "plot_file doc_formats ''data'' ''png'' ''s3.csv'' fs =
     Inr (fs\<lparr>files := (files fs)
            (''data/s3.png'' \<mapsto> Image ''png'' [0, 120, 240, 360, 480, 600])\<rparr>)"
proof -
  have "read_csv fs (os_path_join ''data'' ''s3.csv'') = Inr (table_2x2 250 90 610 40)"
    using assms(1) by (simp add: read_csv_def batch_fs_def os_path_join_def)
  then show ?thesis
    using assms(2)
    by (simp add: plot_file_2x2 plot_2x2 max_of_max_2x2 round_neg2_610
        colorbar_ticks_600 savefig_def savefig_target_examples doc_formats_def os_path_join_def)
qed

lemma str_nat_small: "str_nat (Suc (Suc 0)) = ''2''" "str_nat (Suc (Suc (Suc 0))) = ''3''"
  by (simp_all add: str_nat.simps)

text \<open>
  Claim C5, evaluated on a directory with three data files of which \<open>s2.csv\<close> has a
  non-numeric cell. The run prints the discovery line, the line
  \<open>Failed to plot s2.csv.\<close> and the summary, counts 2 of 3, and writes exactly the two
  images of \<open>s1.csv\<close> and \<open>s3.csv\<close>. The summary line is spelt
  \<open>Succesfully plotted 2/3 files.\<close>, which is not the text
  \<open>Successfully plotted 2/3 files.\<close>
\<close>

theorem main_three_files_one_malformed:
  "main repr_plain doc_formats ''data'' ''png'' batch_fs =
     Inr ([''There are 3 files to parse.'' @ [CHR 0x0A] @ ''File list = ''
             @ repr_plain [''s1.csv'', ''s2.csv'', ''s3.csv''],
           ''Failed to plot s2.csv.'',
           ''Succesfully plotted 2/3 files.''],
          batch_fs\<lparr>files := (files batch_fs)
            (''data/s1.png'' \<mapsto> Image ''png'' [0, 80, 160, 240, 320, 400],
             ''data/s3.png'' \<mapsto> Image ''png'' [0, 120, 240, 360, 480, 600])\<rparr>)
   \<and> ''Succesfully plotted 2/3 files.'' \<noteq> ''Successfully plotted 2/3 files.''"
proof -
  let ?fs1 = "batch_fs\<lparr>files := (files batch_fs)
            (''data/s1.png'' \<mapsto> Image ''png'' [0, 80, 160, 240, 320, 400])\<rparr>"
  have 2: "plot_file doc_formats ''data'' ''png'' ''s2.csv'' ?fs1 = Inl ContourfError"
    by (rule batch_s2) simp
  have 3: "plot_file doc_formats ''data'' ''png'' ''s3.csv'' ?fs1 =
     Inr (?fs1\<lparr>files := (files ?fs1)
            (''data/s3.png'' \<mapsto> Image ''png'' [0, 120, 240, 360, 480, 600])\<rparr>)"
    by (rule batch_s3) simp_all
  show ?thesis
    by (simp add: main_def batch_names batch_s1 2 3 str_nat_small Let_def)
qed

end
